theory Spec2Isabelle
  imports Complex_Main "HOL-Library.Word"
begin

section \<open>LinkUp: link validation and scoring\<close>

text \<open>
  A shallow embedding of the validation pipeline (\<^verbatim>\<open>datamuse.ts\<close>, \<^verbatim>\<open>validator.ts\<close>) and
  of the scoring helpers of the game store (\<^verbatim>\<open>store.ts\<close>).

  Conventions of the embedding:
  \<^item> a JavaScript \<^verbatim>\<open>number\<close> that the program computes with (scores, heat, stars, the
    score record) is a \<^typ>\<open>real\<close>, with exact arithmetic and comparisons; the one number
    that the program takes from \<^verbatim>\<open>parseFloat\<close>, the frequency, may also be NaN or infinite
    and has the type \<open>number\<close>;
  \<^item> a JavaScript string is the list of its UTF-16 code units;
  \<^item> the Unicode case table behind \<^verbatim>\<open>toLowerCase\<close> and the number parser behind
    \<^verbatim>\<open>parseFloat\<close> belong to the platform and are parameters of the model: every function
    that uses them takes the record \<open>builtins\<close>, and a statement about all \<open>builtins\<close>
    holds for the ones of the platform;
  \<^item> \<^verbatim>\<open>async\<close> functions run sequentially, so they are state-passing functions on the
    \<open>world\<close> (the module-level cache and the number of requests made so far);
  \<^item> a thrown exception is the \<open>Inl\<close> branch of a sum.
\<close>

subsection \<open>Strings and the built-ins used on them\<close>

type_synonym jsstring = "16 word list"

text \<open>String literals of the source, written as Isabelle strings.\<close>

definition js :: "string \<Rightarrow> jsstring" where
  "js s = map of_char s"

text \<open>White space and line terminators of ECMAScript, as removed by \<^verbatim>\<open>trim\<close>.\<close>

definition isWhiteSpace :: "16 word \<Rightarrow> bool" where
  "isWhiteSpace c \<longleftrightarrow>
     (0x09 \<le> c \<and> c \<le> 0x0D) \<or> c = 0x20 \<or> c = 0xA0 \<or> c = 0x1680 \<or>
     (0x2000 \<le> c \<and> c \<le> 0x200A) \<or> c = 0x2028 \<or> c = 0x2029 \<or> c = 0x202F \<or>
     c = 0x205F \<or> c = 0x3000 \<or> c = 0xFEFF"

definition trim :: "jsstring \<Rightarrow> jsstring" where
  "trim s = rev (dropWhile isWhiteSpace (rev (dropWhile isWhiteSpace s)))"

definition startsWith :: "jsstring \<Rightarrow> jsstring \<Rightarrow> bool" where
  "startsWith s p \<longleftrightarrow> take (length p) s = p"

datatype js_error = URIError | NetworkFailure | ApiError nat | JsonError

text \<open>
  \<^verbatim>\<open>encodeURIComponent\<close>: letters, digits and \<^verbatim>\<open>- _ . ! ~ * ' ( )\<close> are kept, every other
  code point is written as the percent-escaped octets of its UTF-8 encoding, and a
  surrogate code unit without its partner raises \<^verbatim>\<open>URIError\<close>.
\<close>

definition uriUnreserved :: "16 word \<Rightarrow> bool" where
  "uriUnreserved c \<longleftrightarrow>
     (0x41 \<le> c \<and> c \<le> 0x5A) \<or> (0x61 \<le> c \<and> c \<le> 0x7A) \<or> (0x30 \<le> c \<and> c \<le> 0x39) \<or>
     c \<in> {0x2D, 0x5F, 0x2E, 0x21, 0x7E, 0x2A, 0x27, 0x28, 0x29}"

definition isLeadSurrogate :: "16 word \<Rightarrow> bool" where
  "isLeadSurrogate c \<longleftrightarrow> 0xD800 \<le> c \<and> c \<le> 0xDBFF"

definition isTrailSurrogate :: "16 word \<Rightarrow> bool" where
  "isTrailSurrogate c \<longleftrightarrow> 0xDC00 \<le> c \<and> c \<le> 0xDFFF"

definition hexDigit :: "nat \<Rightarrow> 16 word" where
  "hexDigit n = (if n < 10 then 0x30 + of_nat n else 0x41 + of_nat (n - 10))"

definition percentEscape :: "nat \<Rightarrow> jsstring" where
  "percentEscape b = [0x25, hexDigit (b div 16), hexDigit (b mod 16)]"

definition utf8 :: "nat \<Rightarrow> nat list" where
  "utf8 cp =
     (if cp < 0x80 then [cp]
      else if cp < 0x800 then [0xC0 + cp div 64, 0x80 + cp mod 64]
      else if cp < 0x10000 then
        [0xE0 + cp div 4096, 0x80 + (cp div 64) mod 64, 0x80 + cp mod 64]
      else
        [0xF0 + cp div 262144, 0x80 + (cp div 4096) mod 64, 0x80 + (cp div 64) mod 64,
         0x80 + cp mod 64])"

definition escapeCodePoint :: "nat \<Rightarrow> jsstring" where
  "escapeCodePoint cp = concat (map percentEscape (utf8 cp))"

fun encodeURIComponent :: "jsstring \<Rightarrow> js_error + jsstring" where
  "encodeURIComponent [] = Inr []"
| "encodeURIComponent (c # cs) =
     (if uriUnreserved c then
        (case encodeURIComponent cs of Inl e \<Rightarrow> Inl e | Inr r \<Rightarrow> Inr (c # r))
      else if isTrailSurrogate c then Inl URIError
      else if isLeadSurrogate c then
        (case cs of
           [] \<Rightarrow> Inl URIError
         | d # ds \<Rightarrow>
             if isTrailSurrogate d then
               (case encodeURIComponent ds of
                  Inl e \<Rightarrow> Inl e
                | Inr r \<Rightarrow>
                    Inr (escapeCodePoint
                           ((unat c - 0xD800) * 0x400 + (unat d - 0xDC00) + 0x10000) @ r))
             else Inl URIError)
      else
        (case encodeURIComponent cs of
           Inl e \<Rightarrow> Inl e
         | Inr r \<Rightarrow> Inr (escapeCodePoint (unat c) @ r)))"

text \<open>\<^verbatim>\<open>String.prototype.isWellFormed\<close>: no surrogate code unit stands alone.\<close>

fun isWellFormed :: "jsstring \<Rightarrow> bool" where
  "isWellFormed [] = True"
| "isWellFormed (c # cs) =
     (if isLeadSurrogate c then
        (case cs of [] \<Rightarrow> False | d # ds \<Rightarrow> isTrailSurrogate d \<and> isWellFormed ds)
      else if isTrailSurrogate c then False
      else isWellFormed cs)"

text \<open>
  The values a \<^verbatim>\<open>number\<close> can take, and the operator \<^verbatim>\<open><\<close> on them: a comparison with
  NaN is false.
\<close>

datatype number = NaN | Finite real | PlusInfinity | MinusInfinity

fun less_number :: "number \<Rightarrow> number \<Rightarrow> bool" where
  "less_number (Finite x) (Finite y) = (x < y)"
| "less_number (Finite x) PlusInfinity = True"
| "less_number MinusInfinity (Finite y) = True"
| "less_number MinusInfinity PlusInfinity = True"
| "less_number x y = False"

text \<open>
  The built-ins of the platform that the model does not define:
  \<^verbatim>\<open>String.prototype.toLowerCase\<close> and \<^verbatim>\<open>parseFloat\<close>.
\<close>

record builtins =
  toLowerCase :: "jsstring \<Rightarrow> jsstring"
  parseFloat :: "jsstring \<Rightarrow> number"

text \<open>The decimal digits of a non-negative integer, as string concatenation prints it.\<close>

fun Number_toString :: "nat \<Rightarrow> jsstring" where
  "Number_toString n =
     (if n < 10 then [0x30 + of_nat n]
      else Number_toString (n div 10) @ [0x30 + of_nat (n mod 10)])"

declare Number_toString.simps [simp del]

text \<open>\<^verbatim>\<open>Math.round\<close>: the nearest integer, a tie going up.\<close>

definition Math_round :: "real \<Rightarrow> real" where
  "Math_round x = of_int \<lfloor>x + 1 / 2\<rfloor>"

subsection \<open>The data source: \<^verbatim>\<open>datamuse.ts\<close>\<close>

definition API_BASE :: jsstring where
  "API_BASE = js ''https://api.datamuse.com''"

definition CACHE_TTL :: int where
  "CACHE_TTL = 1000 * 60 * 30"

record DatamuseWord =
  word :: jsstring
  score :: real
  tags :: "jsstring list option"

datatype RelationType = rel_syn | rel_trg | rel_jja | rel_jjb | rel_bga | rel_bgb | rel_cns

text \<open>In the source a relation type is the string that names it.\<close>

fun relationString :: "RelationType \<Rightarrow> jsstring" where
  "relationString rel_syn = js ''rel_syn''"
| "relationString rel_trg = js ''rel_trg''"
| "relationString rel_jja = js ''rel_jja''"
| "relationString rel_jjb = js ''rel_jjb''"
| "relationString rel_bga = js ''rel_bga''"
| "relationString rel_bgb = js ''rel_bgb''"
| "relationString rel_cns = js ''rel_cns''"

definition RELATION_PRIORITY :: "RelationType list" where
  "RELATION_PRIORITY = [rel_syn, rel_trg, rel_jja, rel_jjb, rel_bga, rel_bgb, rel_cns]"

text \<open>
  The module-level cache, and what lies outside the program. A \<^verbatim>\<open>fetch\<close> either rejects
  (\<open>None\<close>) or resolves to a response with its \<^verbatim>\<open>ok\<close> flag, its status and its body;
  the body is \<open>None\<close> when \<^verbatim>\<open>response.json()\<close> rejects. The environment gives, for the
  n-th request made to \<open>cachedFetch\<close>, the reading of \<^verbatim>\<open>Date.now()\<close> at that moment and
  the behaviour of the network at that moment, so both may change from one request to the
  next.
\<close>

record cache_entry =
  data :: "DatamuseWord list"
  timestamp :: int

record http_response =
  ok :: bool
  status :: nat
  json :: "DatamuseWord list option"

record moment =
  now :: int
  fetch :: "jsstring \<Rightarrow> http_response option"

type_synonym environment = "nat \<Rightarrow> moment"

record world =
  cache :: "jsstring \<Rightarrow> cache_entry option"
  requests :: nat

text \<open>The body of the \<^verbatim>\<open>try\<close> block of \<open>cachedFetch\<close>; \<open>Inl\<close> is what it throws.\<close>

definition fetchAndStore ::
  "moment \<Rightarrow> jsstring \<Rightarrow> world \<Rightarrow> js_error + (DatamuseWord list \<times> world)" where
  "fetchAndStore m url w =
     (case fetch m url of
        None \<Rightarrow> Inl NetworkFailure
      | Some response \<Rightarrow>
          if \<not> ok response then Inl (ApiError (status response))
          else
            (case json response of
               None \<Rightarrow> Inl JsonError
             | Some d \<Rightarrow>
                 Inr (d, w\<lparr>cache := (cache w)(url \<mapsto> \<lparr>data = d, timestamp = now m\<rparr>)\<rparr>)))"

definition cachedFetch :: "environment \<Rightarrow> jsstring \<Rightarrow> world \<Rightarrow> DatamuseWord list \<times> world" where
  "cachedFetch env url w =
     (let cached = cache w url;
          m = env (requests w);
          w1 = w\<lparr>requests := Suc (requests w)\<rparr>
      in case cached of
           Some entry \<Rightarrow>
             if now m - timestamp entry < CACHE_TTL then (data entry, w1)
             else (case fetchAndStore m url w1 of Inl error \<Rightarrow> ([], w1) | Inr r \<Rightarrow> r)
         | None \<Rightarrow> (case fetchAndStore m url w1 of Inl error \<Rightarrow> ([], w1) | Inr r \<Rightarrow> r))"

definition verifyWord ::
  "builtins \<Rightarrow> environment \<Rightarrow> jsstring \<Rightarrow> world
     \<Rightarrow> (js_error + DatamuseWord option) \<times> world" where
  "verifyWord lib env wd w =
     (let normalizedWord = trim (toLowerCase lib wd)
      in case encodeURIComponent normalizedWord of
           Inl e \<Rightarrow> (Inl e, w)
         | Inr enc \<Rightarrow>
             (let url = API_BASE @ js ''/words?sp='' @ enc @ js ''&qe=sp&md=f&max=1'';
                  (results, w') = cachedFetch env url w
              in (Inr (find (\<lambda>r. toLowerCase lib (word r) = normalizedWord) results), w')))"

definition getWordFrequency :: "builtins \<Rightarrow> DatamuseWord \<Rightarrow> number" where
  "getWordFrequency lib wd =
     (case tags wd of
        None \<Rightarrow> Finite 0
      | Some ts \<Rightarrow>
          (case find (\<lambda>t. startsWith t (js ''f:'')) ts of
             None \<Rightarrow> Finite 0
           | Some freqTag \<Rightarrow>
               (case parseFloat lib (drop 2 freqTag) of NaN \<Rightarrow> Finite 0 | freq \<Rightarrow> freq)))"

definition getRelatedWords ::
  "builtins \<Rightarrow> environment \<Rightarrow> jsstring \<Rightarrow> RelationType \<Rightarrow> nat \<Rightarrow> world
     \<Rightarrow> (js_error + DatamuseWord list) \<times> world" where
  "getRelatedWords lib env wd relationType max_results w =
     (let normalizedWord = trim (toLowerCase lib wd)
      in case encodeURIComponent normalizedWord of
           Inl e \<Rightarrow> (Inl e, w)
         | Inr enc \<Rightarrow>
             (let url = API_BASE @ js ''/words?'' @ relationString relationType @ js ''='' @ enc
                          @ js ''&max='' @ Number_toString max_results;
                  (related, w') = cachedFetch env url w
              in (Inr related, w')))"

record relation_match =
  m_word :: DatamuseWord
  m_topScore :: real

definition findWordInRelation ::
  "builtins \<Rightarrow> environment \<Rightarrow> jsstring \<Rightarrow> jsstring \<Rightarrow> RelationType \<Rightarrow> world
     \<Rightarrow> (js_error + relation_match option) \<times> world" where
  "findWordInRelation lib env sourceWord targetWord relationType w =
     (case getRelatedWords lib env sourceWord relationType 100 w of
        (Inl e, w') \<Rightarrow> (Inl e, w')
      | (Inr related, w') \<Rightarrow>
          (case related of
             [] \<Rightarrow> (Inr None, w')
           | first # _ \<Rightarrow>
               (let topScore = (if score first \<noteq> 0 then score first else 1);
                    normalizedTarget = trim (toLowerCase lib targetWord)
                in case find (\<lambda>r. toLowerCase lib (word r) = normalizedTarget) related of
                     Some match \<Rightarrow> (Inr (Some \<lparr>m_word = match, m_topScore = topScore\<rparr>), w')
                   | None \<Rightarrow> (Inr None, w'))))"

record best_relation =
  r_relationType :: RelationType
  r_match :: DatamuseWord
  r_topScore :: real

text \<open>The \<^verbatim>\<open>for\<close> loop of \<open>findBestRelation\<close> over the relation types still to try.\<close>

fun findBestRelation_loop ::
  "builtins \<Rightarrow> environment \<Rightarrow> jsstring \<Rightarrow> jsstring \<Rightarrow> RelationType list \<Rightarrow> world
     \<Rightarrow> (js_error + best_relation option) \<times> world" where
  "findBestRelation_loop lib env sourceWord targetWord [] w = (Inr None, w)"
| "findBestRelation_loop lib env sourceWord targetWord (relationType # rest) w =
     (case findWordInRelation lib env sourceWord targetWord relationType w of
        (Inl e, w') \<Rightarrow> (Inl e, w')
      | (Inr (Some result), w') \<Rightarrow>
          (Inr (Some \<lparr>r_relationType = relationType, r_match = m_word result,
                      r_topScore = m_topScore result\<rparr>), w')
      | (Inr None, w') \<Rightarrow> findBestRelation_loop lib env sourceWord targetWord rest w')"

definition findBestRelation ::
  "builtins \<Rightarrow> environment \<Rightarrow> jsstring \<Rightarrow> jsstring \<Rightarrow> world
     \<Rightarrow> (js_error + best_relation option) \<times> world" where
  "findBestRelation lib env sourceWord targetWord w =
     findBestRelation_loop lib env sourceWord targetWord RELATION_PRIORITY w"

subsection \<open>The validator: \<^verbatim>\<open>validator.ts\<close>\<close>

definition HUB_WORDS :: "jsstring list" where
  "HUB_WORDS = [js ''thing'', js ''good'', js ''man'', js ''time'', js ''world'', js ''go'',
                js ''get'']"

record ValidationSuccess =
  v_word :: jsstring
  v_relationType :: RelationType
  v_relationLabel :: jsstring
  v_heat :: real
  v_creativityStars :: real
  v_isHubWord :: bool
  v_frequency :: number

datatype reason = not_a_word | no_connection | same_word | already_used

record ValidationFailure =
  f_word :: jsstring
  f_reason :: reason
  f_message :: jsstring

text \<open>The field \<^verbatim>\<open>valid\<close> of the source tells the two alternatives apart.\<close>

datatype ValidationResult = Valid ValidationSuccess | Invalid ValidationFailure

fun RELATION_LABELS :: "RelationType \<Rightarrow> jsstring" where
  "RELATION_LABELS rel_syn = js ''Synonym''"
| "RELATION_LABELS rel_trg = js ''Association''"
| "RELATION_LABELS rel_jja = js ''Property''"
| "RELATION_LABELS rel_jjb = js ''Property''"
| "RELATION_LABELS rel_bga = js ''Phrase''"
| "RELATION_LABELS rel_bgb = js ''Phrase''"
| "RELATION_LABELS rel_cns = js ''Slant Link''"

definition calculateCreativityStars :: "real \<Rightarrow> number \<Rightarrow> real" where
  "calculateCreativityStars heat frequency =
     (let stars = (if heat > 0.66 then 1 else if heat \<ge> 0.40 then 2 else 3)
      in if less_number frequency (Finite 0.01) \<and> stars = 3 then 2 else stars)"

definition isHubWord :: "builtins \<Rightarrow> jsstring \<Rightarrow> bool" where
  "isHubWord lib wd \<longleftrightarrow> trim (toLowerCase lib wd) \<in> set HUB_WORDS"

definition validateLink ::
  "builtins \<Rightarrow> environment \<Rightarrow> jsstring \<Rightarrow> jsstring \<Rightarrow> jsstring list \<Rightarrow> world
     \<Rightarrow> (js_error + ValidationResult) \<times> world" where
  "validateLink lib env previousWord inputWord usedWords w =
     (let normalizedInput = trim (toLowerCase lib inputWord);
          normalizedPrevious = trim (toLowerCase lib previousWord)
      in if normalizedInput = normalizedPrevious then
           (Inr (Invalid \<lparr>f_word = inputWord, f_reason = same_word,
                          f_message = js ''Can't use the same word twice in a row''\<rparr>), w)
         else if normalizedInput \<in> set (map (toLowerCase lib) usedWords) then
           (Inr (Invalid \<lparr>f_word = inputWord, f_reason = already_used,
                          f_message = js ''This word is already in your chain''\<rparr>), w)
         else
           (case verifyWord lib env normalizedInput w of
              (Inl e, w1) \<Rightarrow> (Inl e, w1)
            | (Inr None, w1) \<Rightarrow>
                (Inr (Invalid \<lparr>f_word = inputWord, f_reason = not_a_word,
                               f_message = js ''Not a valid word''\<rparr>), w1)
            | (Inr (Some wordData), w1) \<Rightarrow>
                (case findBestRelation lib env normalizedPrevious normalizedInput w1 of
                   (Inl e, w2) \<Rightarrow> (Inl e, w2)
                 | (Inr None, w2) \<Rightarrow>
                     (Inr (Invalid \<lparr>f_word = inputWord, f_reason = no_connection,
                                    f_message = js ''No connection found to '' @ [0x22]
                                                  @ normalizedPrevious @ [0x22]\<rparr>), w2)
                 | (Inr (Some relation), w2) \<Rightarrow>
                     (let heat = score (r_match relation) / r_topScore relation;
                          frequency = getWordFrequency lib wordData;
                          creativityStars = calculateCreativityStars heat frequency;
                          hubWord = isHubWord lib normalizedInput
                      in (Inr (Valid \<lparr>v_word = word wordData,
                                      v_relationType = r_relationType relation,
                                      v_relationLabel = RELATION_LABELS (r_relationType relation),
                                      v_heat = heat,
                                      v_creativityStars = creativityStars,
                                      v_isHubWord = hubWord,
                                      v_frequency = frequency\<rparr>), w2)))))"

text \<open>The third parameter of \<open>validateLink\<close> is left out and takes its default, the empty list.\<close>

definition validateFinalLink ::
  "builtins \<Rightarrow> environment \<Rightarrow> jsstring \<Rightarrow> jsstring \<Rightarrow> world
     \<Rightarrow> (js_error + ValidationResult) \<times> world" where
  "validateFinalLink lib env currentWord endWord w = validateLink lib env currentWord endWord [] w"

subsection \<open>The store: \<^verbatim>\<open>store.ts\<close>\<close>

record ChainLink =
  l_word :: jsstring
  l_relationLabel :: jsstring
  l_creativityStars :: real
  l_heat :: real
  l_isHubWord :: bool
  l_timestamp :: int

text \<open>
  \<open>getMostCreativeLink\<close> reads the field \<^verbatim>\<open>chain\<close> of the store, here its argument, and
  reduces it from \<^verbatim>\<open>null\<close> with the step below.
\<close>

definition moreCreative :: "ChainLink option \<Rightarrow> ChainLink \<Rightarrow> ChainLink option" where
  "moreCreative best link =
     (case best of
        None \<Rightarrow> Some link
      | Some b \<Rightarrow>
          if l_creativityStars link > l_creativityStars b then Some link
          else if l_creativityStars link = l_creativityStars b \<and> l_heat link < l_heat b
          then Some link
          else Some b)"

definition getMostCreativeLink :: "ChainLink list \<Rightarrow> ChainLink option" where
  "getMostCreativeLink chain =
     (if length chain = 0 then None else foldl moreCreative None chain)"

record Score =
  steps :: real
  effectiveSteps :: real
  starBonus :: real
  finalScore :: real

definition calculateScore :: "real \<Rightarrow> real \<Rightarrow> real \<Rightarrow> Score" where
  "calculateScore chainLength penaltySteps totalStars =
     (let steps = chainLength;
          effectiveSteps = steps + penaltySteps;
          starBonus = totalStars * 0.5;
          finalScore = max 0 (effectiveSteps - starBonus)
      in \<lparr>steps = steps, effectiveSteps = effectiveSteps, starBonus = starBonus,
          finalScore = Math_round (finalScore * 10) / 10\<rparr>)"

subsection \<open>Notions used in the statements\<close>

text \<open>
  A candidate matches an entry of a result list when the lower-cased word of the entry is the
  lower-cased, trimmed candidate: the test of \<open>findWordInRelation\<close>.
\<close>

definition matches :: "builtins \<Rightarrow> jsstring \<Rightarrow> DatamuseWord \<Rightarrow> bool" where
  "matches lib targetWord r \<longleftrightarrow> toLowerCase lib (word r) = trim (toLowerCase lib targetWord)"

text \<open>The position of a relation type in \<open>RELATION_PRIORITY\<close>.\<close>

fun priorityIndex :: "RelationType \<Rightarrow> nat" where
  "priorityIndex rel_syn = 0"
| "priorityIndex rel_trg = 1"
| "priorityIndex rel_jja = 2"
| "priorityIndex rel_jjb = 3"
| "priorityIndex rel_bga = 4"
| "priorityIndex rel_bgb = 5"
| "priorityIndex rel_cns = 6"

text \<open>
  The result list of a relation type in a run of \<open>findBestRelation\<close> that starts in state
  \<open>w\<close>: what \<open>getRelatedWords\<close> returns for it with the cache of \<open>w\<close>, at the moment
  its turn comes, each type before it having made one request.
\<close>

definition resultList ::
  "builtins \<Rightarrow> environment \<Rightarrow> world \<Rightarrow> jsstring \<Rightarrow> RelationType
     \<Rightarrow> DatamuseWord list" where
  "resultList lib env w sourceWord relationType =
     (case fst (getRelatedWords lib env sourceWord relationType 100
                  (w\<lparr>requests := requests w + priorityIndex relationType\<rparr>)) of
        Inl e \<Rightarrow> []
      | Inr related \<Rightarrow> related)"

text \<open>
  The cases in which the \<^verbatim>\<open>try\<close> block of \<open>cachedFetch\<close> throws: the request is
  rejected, the response is not \<^verbatim>\<open>ok\<close>, or its body cannot be read.
\<close>

definition transportFailure :: "moment \<Rightarrow> jsstring \<Rightarrow> bool" where
  "transportFailure m url \<longleftrightarrow>
     (case fetch m url of None \<Rightarrow> True | Some response \<Rightarrow> \<not> ok response \<or> json response = None)"

subsection \<open>Notions used in the proofs\<close>

text \<open>What a request brings back once failures have become the empty list.\<close>

definition fetched :: "moment \<Rightarrow> jsstring \<Rightarrow> DatamuseWord list" where
  "fetched m url =
     (case fetch m url of
        None \<Rightarrow> []
      | Some response \<Rightarrow>
          if ok response then (case json response of None \<Rightarrow> [] | Some d \<Rightarrow> d) else [])"

text \<open>What \<open>cachedFetch\<close> returns, from the moment of the request and the cache entry.\<close>

definition served :: "moment \<Rightarrow> cache_entry option \<Rightarrow> jsstring \<Rightarrow> DatamuseWord list" where
  "served m cached url =
     (case cached of
        Some entry \<Rightarrow> if now m - timestamp entry < CACHE_TTL then data entry else fetched m url
      | None \<Rightarrow> fetched m url)"

text \<open>The two kinds of URL the program builds.\<close>

definition relatedUrl :: "jsstring \<Rightarrow> RelationType \<Rightarrow> jsstring" where
  "relatedUrl enc relationType =
     API_BASE @ js ''/words?'' @ relationString relationType @ js ''='' @ enc
       @ js ''&max='' @ Number_toString 100"

definition verifyUrl :: "jsstring \<Rightarrow> jsstring" where
  "verifyUrl enc = API_BASE @ js ''/words?sp='' @ enc @ js ''&qe=sp&md=f&max=1''"

text \<open>The expression \<^verbatim>\<open>related[0]?.score || 1\<close>.\<close>

definition headScore :: "DatamuseWord list \<Rightarrow> real" where
  "headScore l = (case l of [] \<Rightarrow> 1 | first # _ \<Rightarrow> if score first \<noteq> 0 then score first else 1)"

text \<open>
  The first match in a list of relation types, the k-th request going to the first of them.
\<close>

fun resolve ::
  "builtins \<Rightarrow> (RelationType \<Rightarrow> nat \<Rightarrow> DatamuseWord list) \<Rightarrow> jsstring
     \<Rightarrow> RelationType list \<Rightarrow> nat \<Rightarrow> best_relation option" where
  "resolve lib L targetWord [] k = None"
| "resolve lib L targetWord (rt # rest) k =
     (case find (matches lib targetWord) (L rt k) of
        Some m \<Rightarrow> Some \<lparr>r_relationType = rt, r_match = m, r_topScore = headScore (L rt k)\<rparr>
      | None \<Rightarrow> resolve lib L targetWord rest (Suc k))"

subsection \<open>Concrete inputs\<close>

text \<open>
  Built-ins for the runs below. Every word in these runs consists of ASCII code units or is
  a single surrogate, where \<^verbatim>\<open>toLowerCase\<close> maps the letters A to Z to a to z and leaves
  every other code unit as it is; and no entry of a result list carries tags, so that
  \<^verbatim>\<open>parseFloat\<close> is not called.
\<close>

definition asciiLowerCase :: "jsstring \<Rightarrow> jsstring" where
  "asciiLowerCase s = map (\<lambda>c. if 0x41 \<le> c \<and> c \<le> 0x5A then c + 0x20 else c) s"

definition asciiBuiltins :: builtins where
  "asciiBuiltins = \<lparr>toLowerCase = asciiLowerCase, parseFloat = (\<lambda>s. NaN)\<rparr>"

text \<open>A data source that is out of reach, and the state of a program just started.\<close>

definition offline :: environment where
  "offline = (\<lambda>n. \<lparr>now = 0, fetch = (\<lambda>url. None)\<rparr>)"

definition emptyWorld :: world where
  "emptyWorld = \<lparr>cache = (\<lambda>url. None), requests = 0\<rparr>"

text \<open>A data source whose every answer is one entry with score 0.\<close>

definition zeroScore :: environment where
  "zeroScore = (\<lambda>n. \<lparr>now = 0, fetch = (\<lambda>url. Some \<lparr>ok = True, status = 200,
       json = Some [\<lparr>word = js ''b'', score = 0, tags = None\<rparr>]\<rparr>)\<rparr>)"

text \<open>
  Data sources that answer every request with the same two entries, that add the second
  entry only in their answer to request number 1, and that answer request number 0 and
  then go out of reach.
\<close>

definition everyRequest :: environment where
  "everyRequest =
     (\<lambda>n. \<lparr>now = 0, fetch = (\<lambda>url. Some \<lparr>ok = True, status = 200,
        json = Some [\<lparr>word = js ''sea'', score = 100, tags = None\<rparr>,
                     \<lparr>word = js ''Water'', score = 50, tags = None\<rparr>]\<rparr>)\<rparr>)"

definition secondRequest :: environment where
  "secondRequest =
     (\<lambda>n. \<lparr>now = 0, fetch = (\<lambda>url. Some \<lparr>ok = True, status = 200,
        json = Some (if n = 1
                     then [\<lparr>word = js ''sea'', score = 100, tags = None\<rparr>,
                           \<lparr>word = js ''Water'', score = 50, tags = None\<rparr>]
                     else [\<lparr>word = js ''sea'', score = 100, tags = None\<rparr>])\<rparr>)\<rparr>)"

definition firstRequestOnly :: environment where
  "firstRequestOnly =
     (\<lambda>n. \<lparr>now = 0, fetch = (\<lambda>url. if n = 0
        then Some \<lparr>ok = True, status = 200,
                   json = Some [\<lparr>word = js ''water'', score = 7, tags = None\<rparr>]\<rparr>
        else None)\<rparr>)"



text \<open>A chain of three links with one, three and three stars.\<close>

definition chain_133 :: "ChainLink list" where
  "chain_133 =
     [\<lparr>l_word = js ''sea'', l_relationLabel = js ''Synonym'', l_creativityStars = 1,
        l_heat = 0.9, l_isHubWord = False, l_timestamp = 1\<rparr>,
      \<lparr>l_word = js ''salt'', l_relationLabel = js ''Association'', l_creativityStars = 3,
        l_heat = 0.3, l_isHubWord = False, l_timestamp = 2\<rparr>,
      \<lparr>l_word = js ''wound'', l_relationLabel = js ''Phrase'', l_creativityStars = 3,
        l_heat = 0.2, l_isHubWord = False, l_timestamp = 3\<rparr>]"

section \<open>Properties\<close>

subsection \<open>Creativity rating\<close>

text \<open>
  C1, as amended. Whatever the frequency, a heat above 0.66 is rated 1 and a heat from 0.40
  to 0.66, both bounds included, is rated 2; a heat below 0.40 is rated 3 when the frequency
  is not below 0.01 (in particular when it is a number of at least 0.01), so that the rarity
  clamp does not apply. The comparison with 0.66 is strict: a heat of exactly 0.66 is rated
  2, as is a heat of exactly 0.40.
\<close>

theorem creativity_thresholds:
  "(heat > 0.66 \<longrightarrow> calculateCreativityStars heat frequency = 1) \<and>
   (0.40 \<le> heat \<and> heat \<le> 0.66 \<longrightarrow> calculateCreativityStars heat frequency = 2) \<and>
   (heat < 0.40 \<and> \<not> less_number frequency (Finite 0.01) \<longrightarrow>
      calculateCreativityStars heat frequency = 3) \<and>
   (heat < 0.40 \<and> 0.01 \<le> f \<longrightarrow> calculateCreativityStars heat (Finite f) = 3) \<and>
   calculateCreativityStars 0.66 frequency = 2 \<and>
   calculateCreativityStars 0.40 frequency = 2"
  by (simp add: calculateCreativityStars_def)

theorem creativity_thresholds_witness:
  "(0.6600001::real) > 0.66 \<and> calculateCreativityStars 0.6600001 (Finite 1) = 1 \<and>
   (0.40::real) \<le> 0.6599999 \<and> (0.6599999::real) \<le> 0.66 \<and>
   calculateCreativityStars 0.6599999 (Finite 1) = 2 \<and>
   (0.3999999::real) < 0.40 \<and> (0.01::real) \<le> 1 \<and>
   calculateCreativityStars 0.3999999 (Finite 1) = 3 \<and>
   \<not> less_number PlusInfinity (Finite 0.01) \<and>
   calculateCreativityStars 0.3999999 PlusInfinity = 3"
proof -
  have a: "(0.6600001::real) > 0.66" by simp
  have b: "(0.40::real) \<le> 0.6599999 \<and> (0.6599999::real) \<le> 0.66" by simp
  have c: "(0.3999999::real) < 0.40 \<and> (0.01::real) \<le> 1" by simp
  have d: "(0.3999999::real) < 0.40 \<and> \<not> less_number PlusInfinity (Finite 0.01)" by simp
  have "calculateCreativityStars 0.6600001 (Finite 1) = 1"
    using creativity_thresholds [of "0.6600001" "Finite 1" 1] a by blast
  moreover have "calculateCreativityStars 0.6599999 (Finite 1) = 2"
    using creativity_thresholds [of "0.6599999" "Finite 1" 1] b by blast
  moreover have "calculateCreativityStars 0.3999999 (Finite 1) = 3"
    using creativity_thresholds [of "0.3999999" "Finite 1" 1] c by blast
  moreover have "calculateCreativityStars 0.3999999 PlusInfinity = 3"
    using creativity_thresholds [of "0.3999999" PlusInfinity 1] d by blast
  ultimately show ?thesis using a b c d by blast
qed

text \<open>
  C1 as stated asks for rating 1 at a heat of exactly 0.66; the code gives 2 there.
\<close>

theorem boundary_066_counterexample:
  "calculateCreativityStars 0.66 (Finite 1) = 2 \<and> calculateCreativityStars 0.66 (Finite 1) \<noteq> 1"
  by (simp add: calculateCreativityStars_def)

text \<open>
  C5. When the frequency is below 0.01 and the thresholds give 3 (a heat below 0.40), the
  rating is 2. When the thresholds give 1 (a heat above 0.66), the rating is 1 for every
  frequency, and when they give 2 (a heat from 0.40 to 0.66), it is 2 for every frequency.
  With a frequency that is not below 0.01, a heat below 0.40 keeps rating 3. A heat of 0.10
  is rated 2 at frequency 0.005 and 3 at frequency 0.02.
\<close>

theorem rarity_clamp:
  "(less_number frequency (Finite 0.01) \<and> heat < 0.40 \<longrightarrow>
      calculateCreativityStars heat frequency = 2) \<and>
   (f < 0.01 \<and> heat < 0.40 \<longrightarrow> calculateCreativityStars heat (Finite f) = 2) \<and>
   (heat > 0.66 \<longrightarrow> calculateCreativityStars heat frequency = 1) \<and>
   (0.40 \<le> heat \<and> heat \<le> 0.66 \<longrightarrow> calculateCreativityStars heat frequency = 2) \<and>
   (\<not> less_number frequency (Finite 0.01) \<and> heat < 0.40 \<longrightarrow>
      calculateCreativityStars heat frequency = 3) \<and>
   (0.01 \<le> f \<and> heat < 0.40 \<longrightarrow> calculateCreativityStars heat (Finite f) = 3) \<and>
   calculateCreativityStars 0.10 (Finite 0.005) = 2 \<and>
   calculateCreativityStars 0.10 (Finite 0.02) = 3"
  by (simp add: calculateCreativityStars_def)

theorem rarity_clamp_witness:
  "(0.005::real) < 0.01 \<and> (0.10::real) < 0.40 \<and>
   calculateCreativityStars 0.10 (Finite 0.005) = 2 \<and>
   less_number MinusInfinity (Finite 0.01) \<and> calculateCreativityStars 0.10 MinusInfinity = 2 \<and>
   (0.9::real) > 0.66 \<and> calculateCreativityStars 0.9 (Finite 0.005) = 1 \<and>
   (0.40::real) \<le> 0.5 \<and> (0.5::real) \<le> 0.66 \<and>
   calculateCreativityStars 0.5 (Finite 0.005) = 2 \<and>
   (0.01::real) \<le> 0.02 \<and> calculateCreativityStars 0.10 (Finite 0.02) = 3 \<and>
   \<not> less_number NaN (Finite 0.01) \<and> calculateCreativityStars 0.10 NaN = 3"
proof -
  have a: "(0.005::real) < 0.01 \<and> (0.10::real) < 0.40" by simp
  have a': "less_number MinusInfinity (Finite 0.01) \<and> (0.10::real) < 0.40" by simp
  have b: "(0.9::real) > 0.66" by simp
  have c: "(0.40::real) \<le> 0.5 \<and> (0.5::real) \<le> 0.66" by simp
  have d: "(0.01::real) \<le> 0.02 \<and> (0.10::real) < 0.40" by simp
  have d': "\<not> less_number NaN (Finite 0.01) \<and> (0.10::real) < 0.40" by simp
  have "calculateCreativityStars 0.10 (Finite 0.005) = 2"
    using rarity_clamp [of NaN "0.10" "0.005"] a by blast
  moreover have "calculateCreativityStars 0.10 MinusInfinity = 2"
    using rarity_clamp [of MinusInfinity "0.10" 0] a' by blast
  moreover have "calculateCreativityStars 0.9 (Finite 0.005) = 1"
    using rarity_clamp [of "Finite 0.005" "0.9" 0] b by blast
  moreover have "calculateCreativityStars 0.5 (Finite 0.005) = 2"
    using rarity_clamp [of "Finite 0.005" "0.5" 0] c by blast
  moreover have "calculateCreativityStars 0.10 (Finite 0.02) = 3"
    using rarity_clamp [of NaN "0.10" "0.02"] d by blast
  moreover have "calculateCreativityStars 0.10 NaN = 3"
    using rarity_clamp [of NaN "0.10" 0] d' by blast
  ultimately show ?thesis using a a' b c d d' by blast
qed

subsection \<open>Session score\<close>

lemma Math_round_tenths: "\<bar>Math_round (x * 10) / 10 - x\<bar> \<le> 1 / 20"
  unfolding Math_round_def by linarith

lemma Math_round_max: "Math_round (max 0 x * 10) / 10 = max 0 (Math_round (x * 10) / 10)"
  unfolding Math_round_def max_def by (auto; linarith)

lemma Math_round_of_int: "Math_round (of_int k) = of_int k"
proof -
  have "\<lfloor>(of_int k :: real) + 1 / 2\<rfloor> = k" by linarith
  then show ?thesis by (simp add: Math_round_def)
qed

lemma half_steps_exact:
  "Math_round (max 0 (real n + real m - real k * 0.5) * 10) / 10 = max 0 (real n + real m - real k * 0.5)"
proof -
  have "max 0 (real n + real m - real k * 0.5) * 10
      = of_int (max 0 (10 * int n + 10 * int m - 5 * int k))"
    by (simp add: max_def)
  then show ?thesis by (simp only: Math_round_of_int) simp
qed

text \<open>
  C2. The score record holds the chain length as steps, chain length plus hub penalties as
  effective steps and half the stars as star bonus. The final score is the difference of
  the last two, not below zero, rounded to one decimal place: it is a whole number of
  tenths within one twentieth of that value, it is the same whether the rounding or the
  maximum with zero is taken first, and for whole-number inputs the rounding changes
  nothing. It is 0 whenever the effective steps are below the star bonus, and a chain of 5
  with 1 penalty and 6 stars scores 3.
\<close>

theorem score_aggregation:
  "steps (calculateScore chainLength hubPenaltyCount totalStars) = chainLength \<and>
   effectiveSteps (calculateScore chainLength hubPenaltyCount totalStars)
     = chainLength + hubPenaltyCount \<and>
   starBonus (calculateScore chainLength hubPenaltyCount totalStars) = totalStars * 0.5 \<and>
   (\<exists>tenths::int. finalScore (calculateScore chainLength hubPenaltyCount totalStars)
      = of_int tenths / 10) \<and>
   \<bar>finalScore (calculateScore chainLength hubPenaltyCount totalStars)
      - max 0 (chainLength + hubPenaltyCount - totalStars * 0.5)\<bar> \<le> 1 / 20 \<and>
   finalScore (calculateScore chainLength hubPenaltyCount totalStars)
     = max 0 (Math_round ((chainLength + hubPenaltyCount - totalStars * 0.5) * 10) / 10) \<and>
   finalScore (calculateScore (real n) (real m) (real k))
     = max 0 (real n + real m - real k * 0.5) \<and>
   (effectiveSteps (calculateScore chainLength hubPenaltyCount totalStars)
      < starBonus (calculateScore chainLength hubPenaltyCount totalStars)
    \<longrightarrow> finalScore (calculateScore chainLength hubPenaltyCount totalStars) = 0) \<and>
   calculateScore 5 1 6 = \<lparr>steps = 5, effectiveSteps = 6, starBonus = 3, finalScore = 3\<rparr>"
proof -
  let ?d = "chainLength + hubPenaltyCount - totalStars * 0.5"
  have fs: "finalScore (calculateScore chainLength hubPenaltyCount totalStars)
      = Math_round (max 0 ?d * 10) / 10"
    by (simp add: calculateScore_def Let_def)
  have a: "\<exists>tenths::int. Math_round (max 0 ?d * 10) / 10 = of_int tenths / 10"
    by (auto simp: Math_round_def)
  have b: "\<bar>Math_round (max 0 ?d * 10) / 10 - max 0 ?d\<bar> \<le> 1 / 20"
    by (rule Math_round_tenths)
  have c: "Math_round (max 0 ?d * 10) / 10 = max 0 (Math_round (?d * 10) / 10)"
    by (rule Math_round_max)
  have d: "finalScore (calculateScore (real n) (real m) (real k))
      = max 0 (real n + real m - real k * 0.5)"
    using half_steps_exact [of n m k] by (simp add: calculateScore_def Let_def)
  have e: "chainLength + hubPenaltyCount < totalStars * 0.5
      \<longrightarrow> Math_round (max 0 ?d * 10) / 10 = 0"
    by (simp add: Math_round_def max_def)
  have f: "calculateScore 5 1 6 = \<lparr>steps = 5, effectiveSteps = 6, starBonus = 3, finalScore = 3\<rparr>"
    by (simp add: calculateScore_def Math_round_def)
  have g: "steps (calculateScore chainLength hubPenaltyCount totalStars) = chainLength"
    "effectiveSteps (calculateScore chainLength hubPenaltyCount totalStars)
       = chainLength + hubPenaltyCount"
    "starBonus (calculateScore chainLength hubPenaltyCount totalStars) = totalStars * 0.5"
    by (simp_all add: calculateScore_def Let_def)
  show ?thesis
    apply (intro conjI)
    apply (rule g(1))
    apply (rule g(2))
    apply (rule g(3))
    unfolding fs g
    apply (rule a)
    apply (rule b)
    apply (rule c)
    apply (rule d [unfolded fs])
    apply (rule e)
    apply (rule f)
    done
qed

theorem score_aggregation_witness:
  "effectiveSteps (calculateScore 1 0 6) < starBonus (calculateScore 1 0 6) \<and>
   finalScore (calculateScore 1 0 6) = 0"
proof -
  note t = score_aggregation [of 1 0 6 0 0 0]
  have e: "effectiveSteps (calculateScore 1 0 6) = 1" using t by simp
  have s: "starBonus (calculateScore 1 0 6) = 3" using t by simp
  have lt: "effectiveSteps (calculateScore 1 0 6) < starBonus (calculateScore 1 0 6)"
    unfolding e s by simp
  then show ?thesis using t by blast
qed

subsection \<open>Most creative link\<close>

lemma moreCreative_Some:
  "\<exists>b1. moreCreative (Some b0) x = Some b1 \<and> (b1 = b0 \<or> b1 = x) \<and>
     l_creativityStars b0 \<le> l_creativityStars b1 \<and> l_creativityStars x \<le> l_creativityStars b1 \<and>
     (l_creativityStars b0 = l_creativityStars b1 \<longrightarrow> l_heat b1 \<le> l_heat b0) \<and>
     (l_creativityStars x = l_creativityStars b1 \<longrightarrow> l_heat b1 \<le> l_heat x)"
  by (auto simp: moreCreative_def)

lemma foldl_moreCreative:
  "\<exists>b. foldl moreCreative (Some b0) xs = Some b \<and> b \<in> set (b0 # xs) \<and>
     (\<forall>l\<in>set (b0 # xs). l_creativityStars l \<le> l_creativityStars b) \<and>
     (\<forall>l\<in>set (b0 # xs). l_creativityStars l = l_creativityStars b \<longrightarrow> l_heat b \<le> l_heat l)"
proof (induction xs arbitrary: b0)
  case Nil
  show ?case by simp
next
  case (Cons x xs)
  obtain b1 where b1: "moreCreative (Some b0) x = Some b1" "b1 = b0 \<or> b1 = x"
    "l_creativityStars b0 \<le> l_creativityStars b1" "l_creativityStars x \<le> l_creativityStars b1"
    "l_creativityStars b0 = l_creativityStars b1 \<longrightarrow> l_heat b1 \<le> l_heat b0"
    "l_creativityStars x = l_creativityStars b1 \<longrightarrow> l_heat b1 \<le> l_heat x"
    using moreCreative_Some [of b0 x] by blast
  obtain b where b: "foldl moreCreative (Some b1) xs = Some b" "b \<in> set (b1 # xs)"
    "\<forall>l\<in>set (b1 # xs). l_creativityStars l \<le> l_creativityStars b"
    "\<forall>l\<in>set (b1 # xs). l_creativityStars l = l_creativityStars b \<longrightarrow> l_heat b \<le> l_heat l"
    using Cons.IH [of b1] by blast
  have top: "l_creativityStars b1 \<le> l_creativityStars b" using b(3) by simp
  have tie: "l_creativityStars b1 = l_creativityStars b \<longrightarrow> l_heat b \<le> l_heat b1"
    using b(4) by simp
  have "foldl moreCreative (Some b0) (x # xs) = Some b" using b1(1) b(1) by simp
  moreover have "b \<in> set (b0 # x # xs)" using b(2) b1(2) by auto
  moreover have "\<forall>l\<in>set (b0 # x # xs). l_creativityStars l \<le> l_creativityStars b"
    using b(3) b1(3,4) top by auto
  moreover have "\<forall>l\<in>set (b0 # x # xs).
      l_creativityStars l = l_creativityStars b \<longrightarrow> l_heat b \<le> l_heat l"
  proof
    fix l assume l: "l \<in> set (b0 # x # xs)"
    show "l_creativityStars l = l_creativityStars b \<longrightarrow> l_heat b \<le> l_heat l"
    proof
      assume eq: "l_creativityStars l = l_creativityStars b"
      consider "l = b0" | "l = x" | "l \<in> set xs" using l by auto
      then show "l_heat b \<le> l_heat l"
      proof cases
        case 1
        then have "l_creativityStars b0 = l_creativityStars b1" using eq b1(3) top by simp
        then show ?thesis using 1 eq b1(5) tie by auto
      next
        case 2
        then have "l_creativityStars x = l_creativityStars b1" using eq b1(4) top by simp
        then show ?thesis using 2 eq b1(6) tie by auto
      next
        case 3
        then show ?thesis using b(4) eq by simp
      qed
    qed
  qed
  ultimately show ?case by blast
qed

text \<open>
  C7. The result is none exactly for the empty chain. For a non-empty chain it is a link of
  the chain whose rating no link of the chain exceeds and whose heat no link of the same
  rating undercuts.
\<close>

theorem mostCreativeLink_selects_best:
  "(getMostCreativeLink chain = None \<longleftrightarrow> chain = []) \<and>
   (chain \<noteq> [] \<longrightarrow>
      (\<exists>b. getMostCreativeLink chain = Some b \<and> b \<in> set chain \<and>
         (\<forall>l\<in>set chain. l_creativityStars l \<le> l_creativityStars b) \<and>
         (\<forall>l\<in>set chain. l_creativityStars l = l_creativityStars b \<longrightarrow> l_heat b \<le> l_heat l)))"
proof (cases chain)
  case Nil
  then show ?thesis by (simp add: getMostCreativeLink_def)
next
  case (Cons x xs)
  have "getMostCreativeLink chain = foldl moreCreative (Some x) xs"
    by (simp add: getMostCreativeLink_def Cons moreCreative_def)
  then show ?thesis using foldl_moreCreative [of x xs] Cons by auto
qed

theorem mostCreativeLink_witness:
  "chain_133 \<noteq> [] \<and>
   (\<exists>b. getMostCreativeLink chain_133 = Some b \<and> l_creativityStars b = 3 \<and> l_heat b = 0.2)"
proof -
  have ne: "chain_133 \<noteq> []" by (simp add: chain_133_def)
  obtain b where b: "getMostCreativeLink chain_133 = Some b" "b \<in> set chain_133"
    "\<forall>l\<in>set chain_133. l_creativityStars l \<le> l_creativityStars b"
    "\<forall>l\<in>set chain_133. l_creativityStars l = l_creativityStars b \<longrightarrow> l_heat b \<le> l_heat l"
    using mostCreativeLink_selects_best [of chain_133] ne by blast
  have "l_creativityStars b = 3 \<and> l_heat b = 0.2"
    using b(2,3,4) by (auto simp: chain_133_def)
  then show ?thesis using ne b(1) by blast
qed

subsection \<open>Local checks of the validator\<close>

text \<open>
  C6. For every word, every list of used words, every case table, every environment and
  every state, \<open>validateLink\<close> called with the word as both previous and candidate
  rejects it with reason \<open>same_word\<close>, and so does every call whose two words have the
  same lower-cased, trimmed form. The state comes back unchanged: no request is made, so
  the outcome is the same for every behaviour of the data source.
\<close>

theorem same_word_rejected:
  "validateLink lib env W W usedWords w =
     (Inr (Invalid \<lparr>f_word = W, f_reason = same_word,
                    f_message = js ''Can't use the same word twice in a row''\<rparr>), w) \<and>
   (trim (toLowerCase lib inputWord) = trim (toLowerCase lib previousWord) \<longrightarrow>
      validateLink lib env previousWord inputWord usedWords w =
        (Inr (Invalid \<lparr>f_word = inputWord, f_reason = same_word,
                       f_message = js ''Can't use the same word twice in a row''\<rparr>), w))"
  by (simp add: validateLink_def)

theorem same_word_rejected_witness:
  "trim (toLowerCase asciiBuiltins (js ''cat '')) = trim (toLowerCase asciiBuiltins (js '' Cat'')) \<and>
   validateLink asciiBuiltins offline (js '' Cat'') (js ''cat '') [] emptyWorld =
     (Inr (Invalid \<lparr>f_word = js ''cat '', f_reason = same_word,
                    f_message = js ''Can't use the same word twice in a row''\<rparr>), emptyWorld)"
proof -
  have h: "trim (toLowerCase asciiBuiltins (js ''cat '')) = trim (toLowerCase asciiBuiltins (js '' Cat''))"
    by (simp add: js_def asciiBuiltins_def asciiLowerCase_def trim_def isWhiteSpace_def)
  show ?thesis
    using h same_word_rejected [of asciiBuiltins offline "js ''x''" "[]" emptyWorld "js ''cat ''" "js '' Cat''"]
    by blast
qed

text \<open>
  C3, as amended. When the lower-cased, trimmed candidate differs from the lower-cased,
  trimmed previous word and equals the lower-cased form of some used word, the candidate is
  rejected with reason \<open>already_used\<close>, whatever the case table is and whatever the
  data source does. The used words are lower-cased but not trimmed.
\<close>

theorem already_used_rejected:
  "trim (toLowerCase lib W) \<noteq> trim (toLowerCase lib previousWord) \<Longrightarrow>
   \<exists>u\<in>set C. trim (toLowerCase lib W) = toLowerCase lib u \<Longrightarrow>
   validateLink lib env previousWord W C w =
     (Inr (Invalid \<lparr>f_word = W, f_reason = already_used,
                    f_message = js ''This word is already in your chain''\<rparr>), w)"
  by (auto simp: validateLink_def)

theorem already_used_rejected_witness:
  "trim (toLowerCase asciiBuiltins (js '' Ocean'')) \<noteq> trim (toLowerCase asciiBuiltins (js ''wave'')) \<and>
   (\<exists>u\<in>set [js ''Ocean'', js ''wave'']. trim (toLowerCase asciiBuiltins (js '' Ocean'')) = toLowerCase asciiBuiltins u) \<and>
   validateLink asciiBuiltins offline (js ''wave'') (js '' Ocean'') [js ''Ocean'', js ''wave''] emptyWorld =
     (Inr (Invalid \<lparr>f_word = js '' Ocean'', f_reason = already_used,
                    f_message = js ''This word is already in your chain''\<rparr>), emptyWorld)"
proof -
  have a: "trim (toLowerCase asciiBuiltins (js '' Ocean'')) \<noteq> trim (toLowerCase asciiBuiltins (js ''wave''))"
    by (simp add: js_def asciiBuiltins_def asciiLowerCase_def trim_def isWhiteSpace_def)
  have b: "\<exists>u\<in>set [js ''Ocean'', js ''wave'']. trim (toLowerCase asciiBuiltins (js '' Ocean'')) = toLowerCase asciiBuiltins u"
    by (simp add: js_def asciiBuiltins_def asciiLowerCase_def trim_def isWhiteSpace_def)
  show ?thesis using a b already_used_rejected [OF a b, of offline emptyWorld] by blast
qed

text \<open>
  C3 as stated compares trimmed forms on both sides. The used word \<^verbatim>\<open>" cat"\<close> and the
  candidate \<^verbatim>\<open>"cat"\<close> have the same lower-cased, trimmed form, yet the candidate passes
  the check and, the data source being out of reach, ends as \<open>not_a_word\<close>.
\<close>

theorem untrimmed_used_word_counterexample:
  "trim (toLowerCase asciiBuiltins (js ''cat'')) = trim (toLowerCase asciiBuiltins (js '' cat'')) \<and>
   trim (toLowerCase asciiBuiltins (js ''cat'')) \<noteq> trim (toLowerCase asciiBuiltins (js ''dog'')) \<and>
   fst (validateLink asciiBuiltins offline (js ''dog'') (js ''cat'') [js '' cat''] emptyWorld) =
     Inr (Invalid \<lparr>f_word = js ''cat'', f_reason = not_a_word,
                   f_message = js ''Not a valid word''\<rparr>)"
  by (simp add: validateLink_def verifyWord_def cachedFetch_def fetchAndStore_def offline_def
      emptyWorld_def js_def
      asciiBuiltins_def asciiLowerCase_def trim_def isWhiteSpace_def uriUnreserved_def
      isTrailSurrogate_def isLeadSurrogate_def)

text \<open>
  C10. \<open>validateFinalLink\<close> is \<open>validateLink\<close> with the empty list of used words, for
  every case table, environment and state, and whenever it rejects, the reason is not
  \<open>already_used\<close>.
\<close>

theorem final_link_ignores_chain:
  "validateFinalLink lib env currentWord endWord w = validateLink lib env currentWord endWord [] w \<and>
   (validateFinalLink lib env currentWord endWord w = (Inr (Invalid failure), w') \<longrightarrow>
      f_reason failure \<noteq> already_used)"
  by (auto simp: validateFinalLink_def validateLink_def Let_def
      split: prod.splits sum.splits option.splits if_splits)

theorem final_link_ignores_chain_witness:
  "validateFinalLink asciiBuiltins offline (js ''fire'') (js ''ocean'') emptyWorld =
     (Inr (Invalid \<lparr>f_word = js ''ocean'', f_reason = not_a_word,
                    f_message = js ''Not a valid word''\<rparr>),
      emptyWorld\<lparr>requests := 1\<rparr>) \<and>
   f_reason \<lparr>f_word = js ''ocean'', f_reason = not_a_word,
             f_message = js ''Not a valid word''\<rparr> \<noteq> already_used"
proof -
  have run: "validateFinalLink asciiBuiltins offline (js ''fire'') (js ''ocean'') emptyWorld =
     (Inr (Invalid \<lparr>f_word = js ''ocean'', f_reason = not_a_word,
                    f_message = js ''Not a valid word''\<rparr>),
      emptyWorld\<lparr>requests := 1\<rparr>)"
    by (simp add: validateFinalLink_def validateLink_def verifyWord_def cachedFetch_def
        fetchAndStore_def offline_def emptyWorld_def js_def
        asciiBuiltins_def asciiLowerCase_def trim_def
        isWhiteSpace_def uriUnreserved_def isTrailSurrogate_def isLeadSurrogate_def)
  show ?thesis
    using run final_link_ignores_chain [of asciiBuiltins offline "js ''fire''" "js ''ocean''" emptyWorld
        "\<lparr>f_word = js ''ocean'', f_reason = not_a_word, f_message = js ''Not a valid word''\<rparr>"
        "emptyWorld\<lparr>requests := 1\<rparr>"]
    by blast
qed

subsection \<open>Strings\<close>

lemma unreserved_not_surrogate:
  "uriUnreserved c \<Longrightarrow> \<not> isLeadSurrogate c \<and> \<not> isTrailSurrogate c"
  unfolding uriUnreserved_def isLeadSurrogate_def isTrailSurrogate_def
  by (auto simp: word_le_nat_alt)

lemma lead_not_trail: "isLeadSurrogate c \<Longrightarrow> \<not> isTrailSurrogate c"
  unfolding isLeadSurrogate_def isTrailSurrogate_def by (auto simp: word_le_nat_alt)

lemma encodeURIComponent_total: "isWellFormed s \<Longrightarrow> \<exists>r. encodeURIComponent s = Inr r"
proof (induction s rule: encodeURIComponent.induct)
  case 1
  show ?case by simp
next
  case (2 c cs)
  show ?case
  proof (cases "uriUnreserved c")
    case True
    then have "isWellFormed cs" using "2.prems" unreserved_not_surrogate [of c] by simp
    then show ?thesis using "2.IH"(1) True by auto
  next
    case False
    show ?thesis
    proof (cases "isLeadSurrogate c")
      case lead: True
      then obtain d ds where cs: "cs = d # ds" and d: "isTrailSurrogate d" and ds: "isWellFormed ds"
        using "2.prems" by (auto split: list.splits)
      have nt: "\<not> isTrailSurrogate c" using lead lead_not_trail by blast
      obtain r where "encodeURIComponent ds = Inr r"
        using "2.IH"(2) [OF False nt lead cs d] ds by blast
      then show ?thesis using False nt lead cs d by simp
    next
      case nolead: False
      then have nt: "\<not> isTrailSurrogate c" and wf: "isWellFormed cs"
        using "2.prems" by (auto split: if_splits)
      obtain r where "encodeURIComponent cs = Inr r"
        using "2.IH"(3) [OF False nt nolead] wf by blast
      then show ?thesis using False nt nolead by simp
    qed
  qed
qed

lemma encodeURIComponent_raises: "encodeURIComponent s = Inl e \<Longrightarrow> e = URIError \<and> \<not> isWellFormed s"
proof (induction s rule: encodeURIComponent.induct)
  case 1
  then show ?case by simp
next
  case (2 c cs)
  show ?case
  proof (cases "uriUnreserved c")
    case True
    then have "encodeURIComponent cs = Inl e" using "2.prems" by (simp split: sum.splits)
    then show ?thesis using "2.IH"(1) True unreserved_not_surrogate [of c] by simp
  next
    case False
    show ?thesis
    proof (cases "isTrailSurrogate c")
      case True
      then show ?thesis using "2.prems" False lead_not_trail [of c] by auto
    next
      case nt: False
      show ?thesis
      proof (cases "isLeadSurrogate c")
        case lead: True
        show ?thesis
        proof (cases cs)
          case Nil
          then show ?thesis using "2.prems" False nt lead by simp
        next
          case (Cons d ds)
          show ?thesis
          proof (cases "isTrailSurrogate d")
            case True
            then have "encodeURIComponent ds = Inl e"
              using "2.prems" False nt lead Cons by (simp split: sum.splits)
            then show ?thesis using "2.IH"(2) [OF False nt lead Cons True] lead Cons by simp
          next
            case False2: False
            then show ?thesis using "2.prems" False nt lead Cons by simp
          qed
        qed
      next
        case nolead: False
        then have "encodeURIComponent cs = Inl e"
          using "2.prems" False nt by (simp split: sum.splits)
        then show ?thesis using "2.IH"(3) [OF False nt nolead] nolead nt by simp
      qed
    qed
  qed
qed

subsection \<open>The data source and the loop of the resolver\<close>

lemma fst_cachedFetch: "fst (cachedFetch env url w) = served (env (requests w)) (cache w url) url"
  by (simp add: cachedFetch_def served_def fetched_def fetchAndStore_def Let_def
      split: option.splits)

lemma requests_cachedFetch: "requests (snd (cachedFetch env url w)) = Suc (requests w)"
  by (simp add: cachedFetch_def fetchAndStore_def Let_def split: option.splits)

lemma cache_cachedFetch:
  "u \<noteq> url \<Longrightarrow> cache (snd (cachedFetch env url w)) u = cache w u"
  by (simp add: cachedFetch_def fetchAndStore_def Let_def split: option.splits)

lemma relationString_inj: "relationString a = relationString b \<Longrightarrow> a = b"
  by (cases a; cases b; simp add: js_def)

lemma length_relationString: "length (relationString a) = 7"
  by (cases a; simp add: js_def)

lemma relatedUrl_inj: "relatedUrl enc a = relatedUrl enc b \<Longrightarrow> a = b"
  using relationString_inj [of a b] length_relationString [of a] length_relationString [of b]
  by (simp add: relatedUrl_def)

lemma verifyUrl_relatedUrl: "verifyUrl e \<noteq> relatedUrl e' a"
proof -
  have "js ''/words?sp='' @ x \<noteq> js ''/words?'' @ relationString a @ y" for x y
    by (cases a; simp add: js_def)
  then show ?thesis by (simp add: verifyUrl_def relatedUrl_def)
qed

lemma getRelatedWords_encoded:
  "encodeURIComponent (trim (toLowerCase lib src)) = Inr enc \<Longrightarrow>
   getRelatedWords lib env src rt 100 w =
     (Inr (served (env (requests w)) (cache w (relatedUrl enc rt)) (relatedUrl enc rt)),
      snd (cachedFetch env (relatedUrl enc rt) w))"
  by (simp add: getRelatedWords_def relatedUrl_def [symmetric] Let_def split_beta
      fst_cachedFetch [symmetric])


lemma findWordInRelation_encoded:
  assumes "encodeURIComponent (trim (toLowerCase lib src)) = Inr enc"
  shows "findWordInRelation lib env src tgt rt w =
     (Inr (case find (matches lib tgt)
                  (served (env (requests w)) (cache w (relatedUrl enc rt)) (relatedUrl enc rt)) of
             Some m \<Rightarrow> Some \<lparr>m_word = m, m_topScore =
                 headScore (served (env (requests w)) (cache w (relatedUrl enc rt))
                                   (relatedUrl enc rt))\<rparr>
           | None \<Rightarrow> None),
      snd (cachedFetch env (relatedUrl enc rt) w))"
  unfolding findWordInRelation_def getRelatedWords_encoded [OF assms]
  by (simp add: matches_def [abs_def] headScore_def Let_def split: list.splits option.splits)

lemma loop_resolve:
  assumes enc: "encodeURIComponent (trim (toLowerCase lib src)) = Inr enc"
  shows "distinct ks \<Longrightarrow> requests w1 = requests w + k \<Longrightarrow>
     \<forall>rt\<in>set ks. cache w1 (relatedUrl enc rt) = cache w (relatedUrl enc rt) \<Longrightarrow>
     fst (findBestRelation_loop lib env src tgt ks w1) =
       Inr (resolve lib (\<lambda>rt j. served (env (requests w + j)) (cache w (relatedUrl enc rt))
                                    (relatedUrl enc rt)) tgt ks k)"
proof (induction ks arbitrary: w1 k)
  case Nil
  show ?case by simp
next
  case (Cons rt rest)
  let ?w2 = "snd (cachedFetch env (relatedUrl enc rt) w1)"
  have c: "cache w1 (relatedUrl enc rt) = cache w (relatedUrl enc rt)"
    using Cons.prems(3) by simp
  have step: "findWordInRelation lib env src tgt rt w1 =
     (Inr (case find (matches lib tgt)
                  (served (env (requests w + k)) (cache w (relatedUrl enc rt)) (relatedUrl enc rt)) of
             Some m \<Rightarrow> Some \<lparr>m_word = m, m_topScore =
                 headScore (served (env (requests w + k)) (cache w (relatedUrl enc rt))
                                   (relatedUrl enc rt))\<rparr>
           | None \<Rightarrow> None), ?w2)"
    unfolding findWordInRelation_encoded [OF enc] c Cons.prems(2) by (rule refl)
  have r: "requests ?w2 = requests w + Suc k"
    using Cons.prems(2) by (simp add: requests_cachedFetch)
  have "\<forall>rt'\<in>set rest. cache ?w2 (relatedUrl enc rt') = cache w (relatedUrl enc rt')"
  proof
    fix rt' assume m: "rt' \<in> set rest"
    then have "rt' \<noteq> rt" using Cons.prems(1) by auto
    then have "relatedUrl enc rt' \<noteq> relatedUrl enc rt" using relatedUrl_inj by blast
    then show "cache ?w2 (relatedUrl enc rt') = cache w (relatedUrl enc rt')"
      using cache_cachedFetch Cons.prems(3) m by simp
  qed
  then have IH: "fst (findBestRelation_loop lib env src tgt rest ?w2) =
       Inr (resolve lib (\<lambda>rt j. served (env (requests w + j)) (cache w (relatedUrl enc rt))
                                    (relatedUrl enc rt)) tgt rest (Suc k))"
    using Cons.IH [of ?w2 "Suc k"] Cons.prems(1) r by simp
  show ?case
    using IH by (simp add: step split: option.splits)
qed


lemma resultList_served:
  "encodeURIComponent (trim (toLowerCase lib src)) = Inr enc \<Longrightarrow>
   resultList lib env w src rt =
     served (env (requests w + priorityIndex rt)) (cache w (relatedUrl enc rt)) (relatedUrl enc rt)"
  by (simp add: resultList_def getRelatedWords_encoded)

lemma resolve_none:
  "\<forall>j<length ks. find (matches lib tgt) (L (ks ! j) (k + j)) = None \<Longrightarrow> resolve lib L tgt ks k = None"
proof (induction ks arbitrary: k)
  case Nil
  show ?case by simp
next
  case (Cons rt rest)
  have h: "find (matches lib tgt) (L rt k) = None" using Cons.prems by force
  have "\<forall>j<length rest. find (matches lib tgt) (L (rest ! j) (Suc k + j)) = None"
  proof (intro allI impI)
    fix j assume "j < length rest"
    then show "find (matches lib tgt) (L (rest ! j) (Suc k + j)) = None"
      using Cons.prems [rule_format, of "Suc j"] by simp
  qed
  then show ?case using Cons.IH [of "Suc k"] h by simp
qed

lemma resolve_first:
  "j < length ks \<Longrightarrow> \<forall>i<j. find (matches lib tgt) (L (ks ! i) (k + i)) = None \<Longrightarrow>
   find (matches lib tgt) (L (ks ! j) (k + j)) = Some m \<Longrightarrow>
   resolve lib L tgt ks k =
     Some \<lparr>r_relationType = ks ! j, r_match = m, r_topScore = headScore (L (ks ! j) (k + j))\<rparr>"
proof (induction ks arbitrary: k j)
  case Nil
  then show ?case by simp
next
  case (Cons rt rest)
  show ?case
  proof (cases j)
    case 0
    then show ?thesis using Cons.prems(3) by simp
  next
    case (Suc j')
    have h: "find (matches lib tgt) (L rt k) = None"
      using Cons.prems(2) [rule_format, of 0] Suc by simp
    have "\<forall>i<j'. find (matches lib tgt) (L (rest ! i) (Suc k + i)) = None"
    proof (intro allI impI)
      fix i assume "i < j'"
      then show "find (matches lib tgt) (L (rest ! i) (Suc k + i)) = None"
        using Cons.prems(2) [rule_format, of "Suc i"] Suc by simp
    qed
    then have "resolve lib L tgt rest (Suc k) =
       Some \<lparr>r_relationType = rest ! j', r_match = m,
              r_topScore = headScore (L (rest ! j') (Suc k + j'))\<rparr>"
      using Cons.IH [of j' "Suc k"] Cons.prems(1,3) Suc by simp
    then show ?thesis using h Suc by simp
  qed
qed


lemma length_RELATION_PRIORITY: "length RELATION_PRIORITY = 7"
  by (simp add: RELATION_PRIORITY_def)

lemma distinct_RELATION_PRIORITY: "distinct RELATION_PRIORITY"
  by (simp add: RELATION_PRIORITY_def)

lemma priorityIndex_less: "priorityIndex rt < 7"
  by (cases rt) simp_all

lemma nth_priorityIndex: "RELATION_PRIORITY ! priorityIndex rt = rt"
  by (cases rt) (simp_all add: RELATION_PRIORITY_def)

lemma priorityIndex_nth: "j < 7 \<Longrightarrow> priorityIndex (RELATION_PRIORITY ! j) = j"
proof -
  assume "j < 7"
  then have "j = 0 \<or> j = 1 \<or> j = 2 \<or> j = 3 \<or> j = 4 \<or> j = 5 \<or> j = 6" by arith
  then show ?thesis by (auto simp: RELATION_PRIORITY_def)
qed

lemma headScore_Cons:
  "l \<noteq> [] \<Longrightarrow> headScore l = (if score (hd l) \<noteq> 0 then score (hd l) else 1)"
  by (cases l) (simp_all add: headScore_def)

lemma findBestRelation_resolve:
  assumes enc: "encodeURIComponent (trim (toLowerCase lib src)) = Inr enc"
  shows "fst (findBestRelation lib env src tgt w) =
     Inr (resolve lib (\<lambda>rt j. served (env (requests w + j)) (cache w (relatedUrl enc rt))
                                  (relatedUrl enc rt)) tgt RELATION_PRIORITY 0)"
  unfolding findBestRelation_def
  using loop_resolve [OF enc distinct_RELATION_PRIORITY, of w w 0 env tgt] by simp


lemma transportFailure_throws:
  "transportFailure m url \<longleftrightarrow> (\<exists>e. fetchAndStore m url w = Inl e)"
  by (auto simp: transportFailure_def fetchAndStore_def split: option.splits)

lemma fetched_failure: "transportFailure m url \<Longrightarrow> fetched m url = []"
  by (auto simp: transportFailure_def fetched_def split: option.splits)

lemma verifyWord_encoded:
  "encodeURIComponent (trim (toLowerCase lib wd)) = Inr e \<Longrightarrow>
   verifyWord lib env wd w =
     (Inr (find (\<lambda>r. toLowerCase lib (word r) = trim (toLowerCase lib wd))
                (served (env (requests w)) (cache w (verifyUrl e)) (verifyUrl e))),
      snd (cachedFetch env (verifyUrl e) w))"
  by (simp add: verifyWord_def verifyUrl_def [symmetric] Let_def split_beta
      fst_cachedFetch [symmetric])

lemma verifyWord_state:
  assumes "encodeURIComponent (trim (toLowerCase lib wd)) = Inr e"
  shows "requests (snd (verifyWord lib env wd w)) = Suc (requests w)"
    and "cache (snd (verifyWord lib env wd w)) (relatedUrl e' rt) = cache w (relatedUrl e' rt)"
  using verifyUrl_relatedUrl [of e e' rt]
  by (simp_all add: verifyWord_encoded [OF assms] requests_cachedFetch cache_cachedFetch)

lemma validateLink_not_raising:
  assumes wfI: "isWellFormed (trim (toLowerCase lib (trim (toLowerCase lib inputWord))))"
    and wfP: "isWellFormed (trim (toLowerCase lib (trim (toLowerCase lib previousWord))))"
  shows "\<exists>result. fst (validateLink lib env previousWord inputWord usedWords w) = Inr result"
proof -
  let ?i = "trim (toLowerCase lib inputWord)" and ?p = "trim (toLowerCase lib previousWord)"
  obtain ei where ei: "encodeURIComponent (trim (toLowerCase lib ?i)) = Inr ei"
    using encodeURIComponent_total [OF wfI] by blast
  obtain ep where ep: "encodeURIComponent (trim (toLowerCase lib ?p)) = Inr ep"
    using encodeURIComponent_total [OF wfP] by blast
  obtain v where v: "fst (verifyWord lib env ?i w) = Inr v"
    by (simp add: verifyWord_encoded [OF ei])
  obtain b where b: "fst (findBestRelation lib env ?p ?i (snd (verifyWord lib env ?i w))) = Inr b"
    by (simp add: findBestRelation_resolve [OF ep])
  show ?thesis
    using v b
    by (cases "verifyWord lib env ?i w"; cases "findBestRelation lib env ?p ?i (snd (verifyWord lib env ?i w))")
      (auto simp: validateLink_def Let_def split: option.splits)
qed

lemma validateLink_not_a_word:
  assumes "trim (toLowerCase lib inputWord) \<noteq> trim (toLowerCase lib previousWord)"
    and "trim (toLowerCase lib inputWord) \<notin> set (map (toLowerCase lib) usedWords)"
    and "fst (verifyWord lib env (trim (toLowerCase lib inputWord)) w) = Inr None"
  shows "fst (validateLink lib env previousWord inputWord usedWords w) =
     Inr (Invalid \<lparr>f_word = inputWord, f_reason = not_a_word,
                   f_message = js ''Not a valid word''\<rparr>)"
  using assms
  by (cases "verifyWord lib env (trim (toLowerCase lib inputWord)) w")
    (simp add: validateLink_def Let_def)

lemma validateLink_no_connection:
  assumes "trim (toLowerCase lib inputWord) \<noteq> trim (toLowerCase lib previousWord)"
    and "trim (toLowerCase lib inputWord) \<notin> set (map (toLowerCase lib) usedWords)"
    and "fst (verifyWord lib env (trim (toLowerCase lib inputWord)) w) = Inr (Some wordData)"
    and "fst (findBestRelation lib env (trim (toLowerCase lib previousWord)) (trim (toLowerCase lib inputWord))
               (snd (verifyWord lib env (trim (toLowerCase lib inputWord)) w))) = Inr None"
  shows "fst (validateLink lib env previousWord inputWord usedWords w) =
     Inr (Invalid \<lparr>f_word = inputWord, f_reason = no_connection,
                   f_message = js ''No connection found to '' @ [0x22]
                                 @ trim (toLowerCase lib previousWord) @ [0x22]\<rparr>)"
  using assms
  by (cases "verifyWord lib env (trim (toLowerCase lib inputWord)) w";
      cases "findBestRelation lib env (trim (toLowerCase lib previousWord)) (trim (toLowerCase lib inputWord))
               (snd (verifyWord lib env (trim (toLowerCase lib inputWord)) w))")
    (simp add: validateLink_def Let_def)


lemmas run_defs = validateLink_def verifyWord_def findBestRelation_def RELATION_PRIORITY_def
  findWordInRelation_def getRelatedWords_def cachedFetch_def fetchAndStore_def
  emptyWorld_def js_def
  asciiBuiltins_def asciiLowerCase_def trim_def isWhiteSpace_def uriUnreserved_def
  isTrailSurrogate_def isLeadSurrogate_def

subsection \<open>Relation resolver\<close>

text \<open>
  C4, as amended. Let the lower-cased, trimmed source word have no unpaired surrogate; the
  case table, the environment and the state are arbitrary. If no relation type has a
  matching entry in its result list, the resolver returns none. If the
  first matching entry of the result list of a relation type is \<open>m\<close> and no type earlier
  in the priority order has a matching entry, the resolver returns that type, \<open>m\<close>, and as
  top score the score of the first entry of that list, or 1 when that score is 0. In
  particular a match in the synonym list makes the synonym type the result, whatever the
  other lists hold.
\<close>

theorem resolver_priority:
  assumes wf: "isWellFormed (trim (toLowerCase lib sourceWord))"
  shows "((\<forall>rt. \<not> (\<exists>r\<in>set (resultList lib env w sourceWord rt). matches lib targetWord r)) \<longrightarrow>
            fst (findBestRelation lib env sourceWord targetWord w) = Inr None) \<and>
         (find (matches lib targetWord) (resultList lib env w sourceWord relationType) = Some m \<and>
          (\<forall>rt. priorityIndex rt < priorityIndex relationType \<longrightarrow>
                \<not> (\<exists>r\<in>set (resultList lib env w sourceWord rt). matches lib targetWord r)) \<longrightarrow>
            fst (findBestRelation lib env sourceWord targetWord w) =
              Inr (Some \<lparr>r_relationType = relationType, r_match = m,
                         r_topScore =
                           (if score (hd (resultList lib env w sourceWord relationType)) \<noteq> 0
                            then score (hd (resultList lib env w sourceWord relationType))
                            else 1)\<rparr>)) \<and>
         ((\<exists>r\<in>set (resultList lib env w sourceWord rel_syn). matches lib targetWord r) \<longrightarrow>
            (\<exists>b. fst (findBestRelation lib env sourceWord targetWord w) = Inr (Some b) \<and>
                 r_relationType b = rel_syn))"
proof -
  obtain enc where enc: "encodeURIComponent (trim (toLowerCase lib sourceWord)) = Inr enc"
    using encodeURIComponent_total [OF wf] by blast
  let ?L = "\<lambda>rt j. served (env (requests w + j)) (cache w (relatedUrl enc rt)) (relatedUrl enc rt)"
  have run: "fst (findBestRelation lib env sourceWord targetWord w) =
      Inr (resolve lib ?L targetWord RELATION_PRIORITY 0)"
    by (rule findBestRelation_resolve [OF enc])
  have list: "resultList lib env w sourceWord rt = ?L rt (priorityIndex rt)" for rt
    by (rule resultList_served [OF enc])
  have at: "?L (RELATION_PRIORITY ! j) (0 + j) = resultList lib env w sourceWord (RELATION_PRIORITY ! j)"
    if "j < 7" for j
    using priorityIndex_nth [OF that] by (simp add: list)
  have none: "resolve lib ?L targetWord RELATION_PRIORITY 0 = None"
    if "\<forall>rt. \<not> (\<exists>r\<in>set (resultList lib env w sourceWord rt). matches lib targetWord r)"
  proof (rule resolve_none, intro allI impI)
    fix j assume "j < length RELATION_PRIORITY"
    then have j: "j < 7" by (simp add: length_RELATION_PRIORITY)
    show "find (matches lib targetWord) (?L (RELATION_PRIORITY ! j) (0 + j)) = None"
      unfolding at [OF j] using that by (simp add: find_None_iff)
  qed
  have first: "resolve lib ?L targetWord RELATION_PRIORITY 0 =
      Some \<lparr>r_relationType = rt, r_match = m', r_topScore =
               (if score (hd (resultList lib env w sourceWord rt)) \<noteq> 0
                then score (hd (resultList lib env w sourceWord rt)) else 1)\<rparr>"
    if found: "find (matches lib targetWord) (resultList lib env w sourceWord rt) = Some m'"
      and earlier: "\<forall>rt'. priorityIndex rt' < priorityIndex rt \<longrightarrow>
         \<not> (\<exists>r\<in>set (resultList lib env w sourceWord rt'). matches lib targetWord r)"
    for rt m'
  proof -
    let ?j = "priorityIndex rt"
    have j: "?j < 7" by (rule priorityIndex_less)
    have jl: "?j < length RELATION_PRIORITY" using j by (simp add: length_RELATION_PRIORITY)
    have nth: "RELATION_PRIORITY ! ?j = rt" by (rule nth_priorityIndex)
    have before: "\<forall>i<?j. find (matches lib targetWord) (?L (RELATION_PRIORITY ! i) (0 + i)) = None"
    proof (intro allI impI)
      fix i assume i: "i < ?j"
      then have i7: "i < 7" using j by simp
      have "priorityIndex (RELATION_PRIORITY ! i) < ?j" using priorityIndex_nth [OF i7] i by simp
      then have "\<not> (\<exists>r\<in>set (resultList lib env w sourceWord (RELATION_PRIORITY ! i)).
                     matches lib targetWord r)"
        using earlier by blast
      then show "find (matches lib targetWord) (?L (RELATION_PRIORITY ! i) (0 + i)) = None"
        unfolding at [OF i7] by (simp add: find_None_iff)
    qed
    have here: "find (matches lib targetWord) (?L (RELATION_PRIORITY ! ?j) (0 + ?j)) = Some m'"
      using found by (simp add: nth list)
    have ne: "resultList lib env w sourceWord rt \<noteq> []" using found by auto
    have "resolve lib ?L targetWord RELATION_PRIORITY 0 =
        Some \<lparr>r_relationType = rt, r_match = m',
               r_topScore = headScore (resultList lib env w sourceWord rt)\<rparr>"
      using resolve_first [OF jl before here] by (simp add: nth list)
    then show ?thesis by (simp only: headScore_Cons [OF ne])
  qed
  have syn: "\<exists>b. resolve lib ?L targetWord RELATION_PRIORITY 0 = Some b \<and> r_relationType b = rel_syn"
    if "\<exists>r\<in>set (resultList lib env w sourceWord rel_syn). matches lib targetWord r"
  proof -
    have "find (matches lib targetWord) (resultList lib env w sourceWord rel_syn) \<noteq> None"
      using that by (simp add: find_None_iff) blast
    then obtain m' where m': "find (matches lib targetWord) (resultList lib env w sourceWord rel_syn) = Some m'"
      by blast
    show ?thesis using first [OF m'] by simp
  qed
  show ?thesis
    unfolding run using none first syn by blast
qed

theorem resolver_priority_witness:
  "isWellFormed (trim (toLowerCase asciiBuiltins (js ''Ocean''))) \<and>
   fst (findBestRelation asciiBuiltins offline (js ''Ocean'') (js ''water'') emptyWorld) = Inr None \<and>
   find (matches asciiBuiltins (js ''water'')) (resultList asciiBuiltins secondRequest emptyWorld (js ''Ocean'') rel_trg)
     = Some \<lparr>word = js ''Water'', score = 50, tags = None\<rparr> \<and>
   fst (findBestRelation asciiBuiltins secondRequest (js ''Ocean'') (js ''water'') emptyWorld) =
     Inr (Some \<lparr>r_relationType = rel_trg,
                r_match = \<lparr>word = js ''Water'', score = 50, tags = None\<rparr>,
                r_topScore = 100\<rparr>) \<and>
   (\<exists>b. fst (findBestRelation asciiBuiltins everyRequest (js ''Ocean'') (js ''water'') emptyWorld) = Inr (Some b) \<and>
        r_relationType b = rel_syn)"
proof -
  have wf: "isWellFormed (trim (toLowerCase asciiBuiltins (js ''Ocean'')))"
    by (simp add: js_def
        asciiBuiltins_def asciiLowerCase_def trim_def isWhiteSpace_def isLeadSurrogate_def
        isTrailSurrogate_def)
  have no_match: "\<forall>rt. \<not> (\<exists>r\<in>set (resultList asciiBuiltins offline emptyWorld (js ''Ocean'') rt).
                          matches asciiBuiltins (js ''water'') r)"
    by (simp add: resultList_def run_defs offline_def)
  have trg: "resultList asciiBuiltins secondRequest emptyWorld (js ''Ocean'') rel_trg =
      [\<lparr>word = js ''sea'', score = 100, tags = None\<rparr>,
       \<lparr>word = js ''Water'', score = 50, tags = None\<rparr>]"
    by (simp add: resultList_def run_defs secondRequest_def)
  have found: "find (matches asciiBuiltins (js ''water'')) (resultList asciiBuiltins secondRequest emptyWorld (js ''Ocean'') rel_trg)
     = Some \<lparr>word = js ''Water'', score = 50, tags = None\<rparr>"
    unfolding trg by (simp add: matches_def js_def
        asciiBuiltins_def asciiLowerCase_def trim_def isWhiteSpace_def)
  have earlier: "\<forall>rt. priorityIndex rt < priorityIndex rel_trg \<longrightarrow>
      \<not> (\<exists>r\<in>set (resultList asciiBuiltins secondRequest emptyWorld (js ''Ocean'') rt). matches asciiBuiltins (js ''water'') r)"
  proof (intro allI impI)
    fix rt assume "priorityIndex rt < priorityIndex rel_trg"
    then have rt: "rt = rel_syn" by (cases rt) simp_all
    have "resultList asciiBuiltins secondRequest emptyWorld (js ''Ocean'') rel_syn =
        [\<lparr>word = js ''sea'', score = 100, tags = None\<rparr>]"
      by (simp add: resultList_def run_defs secondRequest_def)
    then show "\<not> (\<exists>r\<in>set (resultList asciiBuiltins secondRequest emptyWorld (js ''Ocean'') rt).
                    matches asciiBuiltins (js ''water'') r)"
      unfolding rt by (simp add: matches_def js_def
          asciiBuiltins_def asciiLowerCase_def trim_def isWhiteSpace_def)
  qed
  have syn: "\<exists>r\<in>set (resultList asciiBuiltins everyRequest emptyWorld (js ''Ocean'') rel_syn).
      matches asciiBuiltins (js ''water'') r"
    by (simp add: resultList_def run_defs everyRequest_def matches_def)
  have a: "fst (findBestRelation asciiBuiltins offline (js ''Ocean'') (js ''water'') emptyWorld) = Inr None"
  proof -
    have "(\<forall>rt. \<not> (\<exists>r\<in>set (resultList asciiBuiltins offline emptyWorld (js ''Ocean'') rt).
                      matches asciiBuiltins (js ''water'') r)) \<longrightarrow>
          fst (findBestRelation asciiBuiltins offline (js ''Ocean'') (js ''water'') emptyWorld) = Inr None"
      using resolver_priority [OF wf] by (rule conjunct1)
    from this no_match show ?thesis by (rule mp)
  qed
  have b: "fst (findBestRelation asciiBuiltins secondRequest (js ''Ocean'') (js ''water'') emptyWorld) =
     Inr (Some \<lparr>r_relationType = rel_trg,
                r_match = \<lparr>word = js ''Water'', score = 50, tags = None\<rparr>,
                r_topScore =
                  (if score (hd (resultList asciiBuiltins secondRequest emptyWorld (js ''Ocean'') rel_trg)) \<noteq> 0
                   then score (hd (resultList asciiBuiltins secondRequest emptyWorld (js ''Ocean'') rel_trg))
                   else 1)\<rparr>)"
  proof -
    note r = resolver_priority [OF wf, of secondRequest emptyWorld "js ''water''" rel_trg
        "\<lparr>word = js ''Water'', score = 50, tags = None\<rparr>"]
    from r [THEN conjunct2, THEN conjunct1] conjI [OF found earlier] show ?thesis by (rule mp)
  qed
  have b': "fst (findBestRelation asciiBuiltins secondRequest (js ''Ocean'') (js ''water'') emptyWorld) =
     Inr (Some \<lparr>r_relationType = rel_trg,
                r_match = \<lparr>word = js ''Water'', score = 50, tags = None\<rparr>,
                r_topScore = 100\<rparr>)"
    using b unfolding trg by simp
  have c: "\<exists>b. fst (findBestRelation asciiBuiltins everyRequest (js ''Ocean'') (js ''water'') emptyWorld)
               = Inr (Some b) \<and> r_relationType b = rel_syn"
  proof -
    note r = resolver_priority [OF wf, of everyRequest emptyWorld "js ''water''"]
    from r [THEN conjunct2, THEN conjunct2] syn show ?thesis by (rule mp)
  qed
  show ?thesis using wf a found b' c by blast
qed

text \<open>
  C4 as stated returns the top score of the result list in which the match was found. A
  list whose only entry has score 0 yields the top score 1.
\<close>

theorem top_score_counterexample:
  "resultList asciiBuiltins zeroScore emptyWorld (js ''a'') rel_syn = [\<lparr>word = js ''b'', score = 0, tags = None\<rparr>] \<and>
   fst (findBestRelation asciiBuiltins zeroScore (js ''a'') (js ''b'') emptyWorld) =
     Inr (Some \<lparr>r_relationType = rel_syn, r_match = \<lparr>word = js ''b'', score = 0, tags = None\<rparr>,
                r_topScore = 1\<rparr>)"
  by (simp add: resultList_def run_defs zeroScore_def)

subsection \<open>No error reaches the caller\<close>

text \<open>
  Let the candidate and the previous word, lower-cased and trimmed as they are when the
  query URLs are built, have no unpaired surrogate. Then, for every case table, environment,
  list of used words and state, \<open>validateLink\<close> returns a result and raises no error. A
  request that finds no cache entry and fails in transport yields the empty list. With an
  empty cache and the local checks passed, a failure of the first request ends in
  \<open>not_a_word\<close>; when the word is verified and every later request fails, the call ends
  in \<open>no_connection\<close>.
\<close>

theorem validation_never_raises:
  assumes wfI: "isWellFormed (trim (toLowerCase lib (trim (toLowerCase lib inputWord))))"
    and wfP: "isWellFormed (trim (toLowerCase lib (trim (toLowerCase lib previousWord))))"
  shows "(\<exists>result w'. validateLink lib env previousWord inputWord usedWords w = (Inr result, w')) \<and>
    (cache w url = None \<and> transportFailure (env (requests w)) url \<longrightarrow>
       fst (cachedFetch env url w) = []) \<and>
    (trim (toLowerCase lib inputWord) \<noteq> trim (toLowerCase lib previousWord) \<and>
     trim (toLowerCase lib inputWord) \<notin> set (map (toLowerCase lib) usedWords) \<and>
     (\<forall>u. cache w u = None) \<and> (\<forall>u. transportFailure (env (requests w)) u) \<longrightarrow>
       fst (validateLink lib env previousWord inputWord usedWords w) =
         Inr (Invalid \<lparr>f_word = inputWord, f_reason = not_a_word,
                       f_message = js ''Not a valid word''\<rparr>)) \<and>
    (trim (toLowerCase lib inputWord) \<noteq> trim (toLowerCase lib previousWord) \<and>
     trim (toLowerCase lib inputWord) \<notin> set (map (toLowerCase lib) usedWords) \<and>
     fst (verifyWord lib env (trim (toLowerCase lib inputWord)) w) = Inr (Some wordData) \<and>
     (\<forall>u. cache w u = None) \<and> (\<forall>n>requests w. \<forall>u. transportFailure (env n) u) \<longrightarrow>
       fst (validateLink lib env previousWord inputWord usedWords w) =
         Inr (Invalid \<lparr>f_word = inputWord, f_reason = no_connection,
                       f_message = js ''No connection found to '' @ [0x22]
                                     @ trim (toLowerCase lib previousWord) @ [0x22]\<rparr>))"
proof -
  let ?i = "trim (toLowerCase lib inputWord)" and ?p = "trim (toLowerCase lib previousWord)"
  obtain ei where ei: "encodeURIComponent (trim (toLowerCase lib ?i)) = Inr ei"
    using encodeURIComponent_total [OF wfI] by blast
  obtain ep where ep: "encodeURIComponent (trim (toLowerCase lib ?p)) = Inr ep"
    using encodeURIComponent_total [OF wfP] by blast
  have a: "\<exists>result w'. validateLink lib env previousWord inputWord usedWords w = (Inr result, w')"
    using validateLink_not_raising [OF wfI wfP, of env usedWords w]
    by (metis prod.collapse)
  have b0: "fst (cachedFetch env url w) = []"
    if "cache w url = None" "transportFailure (env (requests w)) url"
    using that by (simp add: fst_cachedFetch served_def fetched_failure)
  have b1: "fst (validateLink lib env previousWord inputWord usedWords w) =
         Inr (Invalid \<lparr>f_word = inputWord, f_reason = not_a_word,
                       f_message = js ''Not a valid word''\<rparr>)"
    if "?i \<noteq> ?p" "?i \<notin> set (map (toLowerCase lib) usedWords)" "\<forall>u. cache w u = None"
      "\<forall>u. transportFailure (env (requests w)) u"
  proof -
    have "fst (verifyWord lib env ?i w) = Inr None"
      using that(3,4) by (simp add: verifyWord_encoded [OF ei] served_def fetched_failure)
    then show ?thesis by (rule validateLink_not_a_word [OF that(1,2)])
  qed
  have b2: "fst (validateLink lib env previousWord inputWord usedWords w) =
         Inr (Invalid \<lparr>f_word = inputWord, f_reason = no_connection,
                       f_message = js ''No connection found to '' @ [0x22] @ ?p @ [0x22]\<rparr>)"
    if "?i \<noteq> ?p" "?i \<notin> set (map (toLowerCase lib) usedWords)"
      "fst (verifyWord lib env ?i w) = Inr (Some wordData)" "\<forall>u. cache w u = None"
      "\<forall>n>requests w. \<forall>u. transportFailure (env n) u"
  proof -
    let ?w1 = "snd (verifyWord lib env ?i w)"
    have r: "requests ?w1 = Suc (requests w)" by (rule verifyWord_state(1) [OF ei])
    have c: "cache ?w1 (relatedUrl ep rt) = None" for rt
      using verifyWord_state(2) [OF ei, of env w ep rt] that(4) by simp
    have "resolve lib (\<lambda>rt j. served (env (requests ?w1 + j)) (cache ?w1 (relatedUrl ep rt))
                                 (relatedUrl ep rt)) ?i RELATION_PRIORITY 0 = None"
    proof (rule resolve_none, intro allI impI)
      fix j
      have "transportFailure (env (requests ?w1 + (0 + j))) u" for u
        using that(5) r by simp
      then show "find (matches lib ?i)
          (served (env (requests ?w1 + (0 + j))) (cache ?w1 (relatedUrl ep (RELATION_PRIORITY ! j)))
                  (relatedUrl ep (RELATION_PRIORITY ! j))) = None"
        by (simp add: c served_def fetched_failure)
    qed
    then have "fst (findBestRelation lib env ?p ?i ?w1) = Inr None"
      by (simp add: findBestRelation_resolve [OF ep])
    then show ?thesis by (rule validateLink_no_connection [OF that(1,2,3)])
  qed
  show ?thesis using a b0 b1 b2 by blast
qed

theorem validation_never_raises_witness:
  "isWellFormed (trim (toLowerCase asciiBuiltins (trim (toLowerCase asciiBuiltins (js ''water''))))) \<and>
   isWellFormed (trim (toLowerCase asciiBuiltins (trim (toLowerCase asciiBuiltins (js ''Ocean''))))) \<and>
   (\<exists>result w'. validateLink asciiBuiltins everyRequest (js ''Ocean'') (js ''water'') [] emptyWorld
                   = (Inr result, w')) \<and>
   fst (cachedFetch offline (js ''x'') emptyWorld) = [] \<and>
   fst (validateLink asciiBuiltins offline (js ''Ocean'') (js ''water'') [] emptyWorld) =
     Inr (Invalid \<lparr>f_word = js ''water'', f_reason = not_a_word,
                   f_message = js ''Not a valid word''\<rparr>) \<and>
   fst (validateLink asciiBuiltins firstRequestOnly (js ''Ocean'') (js ''water'') [] emptyWorld) =
     Inr (Invalid \<lparr>f_word = js ''water'', f_reason = no_connection,
                   f_message = js ''No connection found to '' @ [0x22]
                                 @ trim (toLowerCase asciiBuiltins (js ''Ocean'')) @ [0x22]\<rparr>)"
proof -
  let ?wd = "\<lparr>word = js ''water'', score = 7, tags = None\<rparr>"
  have wfI: "isWellFormed (trim (toLowerCase asciiBuiltins
                                   (trim (toLowerCase asciiBuiltins (js ''water'')))))"
    by (simp add: js_def
        asciiBuiltins_def asciiLowerCase_def trim_def isWhiteSpace_def isLeadSurrogate_def
        isTrailSurrogate_def)
  have wfP: "isWellFormed (trim (toLowerCase asciiBuiltins
                                   (trim (toLowerCase asciiBuiltins (js ''Ocean'')))))"
    by (simp add: js_def
        asciiBuiltins_def asciiLowerCase_def trim_def isWhiteSpace_def isLeadSurrogate_def
        isTrailSurrogate_def)
  have ne: "trim (toLowerCase asciiBuiltins (js ''water'')) \<noteq> trim (toLowerCase asciiBuiltins (js ''Ocean''))"
    by (simp add: js_def asciiBuiltins_def asciiLowerCase_def trim_def isWhiteSpace_def)
  have unused: "trim (toLowerCase asciiBuiltins (js ''water'')) \<notin> set (map (toLowerCase asciiBuiltins) [])" by simp
  have empty: "\<forall>u. cache emptyWorld u = None" by (simp add: emptyWorld_def)
  have down: "\<forall>u. transportFailure (offline (requests emptyWorld)) u"
    by (simp add: transportFailure_def offline_def)
  have later: "\<forall>n>requests emptyWorld. \<forall>u. transportFailure (firstRequestOnly n) u"
    by (simp add: transportFailure_def firstRequestOnly_def emptyWorld_def)
  have verified: "fst (verifyWord asciiBuiltins firstRequestOnly (trim (toLowerCase asciiBuiltins (js ''water''))) emptyWorld)
      = Inr (Some ?wd)"
    by (simp add: run_defs firstRequestOnly_def Let_def)
  note t1 = validation_never_raises [OF wfI wfP, of everyRequest "[]" emptyWorld "js ''x''" ?wd]
  note t2 = validation_never_raises [OF wfI wfP, of offline "[]" emptyWorld "js ''x''" ?wd]
  note t3 = validation_never_raises [OF wfI wfP, of firstRequestOnly "[]" emptyWorld "js ''x''" ?wd]
  have a: "\<exists>result w'. validateLink asciiBuiltins everyRequest (js ''Ocean'') (js ''water'') [] emptyWorld
                   = (Inr result, w')"
    using t1 by blast
  have b0: "fst (cachedFetch offline (js ''x'') emptyWorld) = []"
    using t2 empty down by blast
  have b1: "fst (validateLink asciiBuiltins offline (js ''Ocean'') (js ''water'') [] emptyWorld) =
     Inr (Invalid \<lparr>f_word = js ''water'', f_reason = not_a_word,
                   f_message = js ''Not a valid word''\<rparr>)"
    using t2 ne unused empty down by blast
  have b2: "fst (validateLink asciiBuiltins firstRequestOnly (js ''Ocean'') (js ''water'') [] emptyWorld) =
     Inr (Invalid \<lparr>f_word = js ''water'', f_reason = no_connection,
                   f_message = js ''No connection found to '' @ [0x22]
                                 @ trim (toLowerCase asciiBuiltins (js ''Ocean'')) @ [0x22]\<rparr>)"
    using t3 ne unused verified empty later by blast
  show ?thesis using wfI wfP a b0 b1 b2 by blast
qed

text \<open>
  C8. The claim is that \<open>validateLink\<close> returns a result for every input and never raises
  an error to its caller. A candidate that is an unpaired surrogate passes the local
  checks and reaches \<^verbatim>\<open>encodeURIComponent\<close> in \<open>verifyWord\<close>, before the \<^verbatim>\<open>try\<close>
  block of \<open>cachedFetch\<close>: there the call raises \<^verbatim>\<open>URIError\<close>, whatever the data
  source does.
\<close>

theorem validateLink_raises_on_lone_surrogate:
  "fst (validateLink asciiBuiltins env (js ''fire'') [0xD800] [] w) = Inl URIError"
  by (simp add: validateLink_def verifyWord_def js_def
      asciiBuiltins_def asciiLowerCase_def trim_def isWhiteSpace_def
      uriUnreserved_def isTrailSurrogate_def isLeadSurrogate_def)

subsection \<open>Heat\<close>




end
